theory Spec2Isabelle
  imports Main "HOL-Library.Char_ord" "HOL-Library.Sublist" "HOL-Library.AList" "HOL-Library.Word"
begin

section \<open>Strings\<close>

text \<open>
  A JavaScript string is modelled as a \<^typ>\<open>string\<close>: one \<^typ>\<open>char\<close> per code unit, for
  code units below 256 (ASCII and Latin-1). The character class, the separators and the
  extensions the module looks at are all ASCII.
\<close>

text \<open>\<^verbatim>\<open>s.split(c)\<close> for a one-character separator: never an empty array.\<close>

fun split_on :: "char \<Rightarrow> string \<Rightarrow> string list" where
  "split_on c [] = [[]]"
| "split_on c (x # xs) =
     (if x = c then [] # split_on c xs
      else (case split_on c xs of [] \<Rightarrow> [[x]] | s # ss \<Rightarrow> (x # s) # ss))"

text \<open>\<^verbatim>\<open>segments.join(sep)\<close>.\<close>

fun join_with :: "string \<Rightarrow> string list \<Rightarrow> string" where
  "join_with sep [] = []"
| "join_with sep [s] = s"
| "join_with sep (s # t # ss) = s @ sep @ join_with sep (t # ss)"

text \<open>
  \<^verbatim>\<open>s.toLowerCase()\<close>, one code unit at a time: \<open>A\<close>-\<open>Z\<close> and the Latin-1 capitals
  (\<open>0xC0\<close>-\<open>0xDE\<close> without the multiplication sign \<open>0xD7\<close>) move up by 32.
\<close>

definition toLowerCase_char :: "char \<Rightarrow> char" where
  "toLowerCase_char c =
     (if (CHR ''A'' \<le> c \<and> c \<le> CHR ''Z'') \<or> (CHR 0xC0 \<le> c \<and> c \<le> CHR 0xDE \<and> c \<noteq> CHR 0xD7)
      then char_of (of_char c + (32::nat)) else c)"

definition toLowerCase :: "string \<Rightarrow> string" where
  "toLowerCase s = map toLowerCase_char s"

text \<open>The character class \<^verbatim>\<open>[a-zA-Z0-9.-]\<close>.\<close>

definition in_class :: "char \<Rightarrow> bool" where
  "in_class c \<longleftrightarrow>
     (CHR ''a'' \<le> c \<and> c \<le> CHR ''z'') \<or> (CHR ''A'' \<le> c \<and> c \<le> CHR ''Z'') \<or>
     (CHR ''0'' \<le> c \<and> c \<le> CHR ''9'') \<or> c = CHR ''.'' \<or> c = CHR ''-''"

text \<open>
  \<^verbatim>\<open>name.replace(/[^a-zA-Z0-9.-]/g, "_")\<close>: a scan from the left that replaces every match
  of the negated class, one code unit each.
\<close>

fun replace_outside_class :: "string \<Rightarrow> string" where
  "replace_outside_class [] = []"
| "replace_outside_class (c # cs) =
     (if \<not> in_class c then CHR ''_'' # replace_outside_class cs
      else c # replace_outside_class cs)"

text \<open>
  \<^verbatim>\<open>`${timestamp}`\<close> for the clock reading \<^verbatim>\<open>Date.now()\<close>, a count of milliseconds since
  the epoch: its decimal digits.
\<close>

definition digit_char :: "nat \<Rightarrow> char" where
  "digit_char d = ''0123456789'' ! (d mod 10)"

fun number_toString :: "nat \<Rightarrow> string" where
  "number_toString n =
     (if n < 10 then [digit_char n] else number_toString (n div 10) @ [digit_char (n mod 10)])"

declare number_toString.simps [simp del]

section \<open>Content types\<close>

text \<open>\<^verbatim>\<open>getContentType\<close>: the switch on the last piece of the lower-cased name.\<close>

definition getContentType :: "string \<Rightarrow> string" where
  "getContentType fileName =
     (let ext = last (split_on CHR ''.'' (toLowerCase fileName))
      in if ext = ''pdf'' then ''application/pdf''
         else if ext = ''png'' then ''image/png''
         else if ext = ''jpg'' \<or> ext = ''jpeg'' then ''image/jpeg''
         else if ext = ''tiff'' \<or> ext = ''tif'' then ''image/tiff''
         else ''application/octet-stream'')"

section \<open>Paths (\<^verbatim>\<open>path.join\<close> of the POSIX platform)\<close>

text \<open>
  The segment loop of \<^verbatim>\<open>normalizeString\<close>: empty segments and \<open>.\<close> are skipped, \<open>..\<close>
  drops the last kept segment unless there is none or it is \<open>..\<close> itself, in which case
  \<open>..\<close> is kept when the path is relative. The kept segments are held last-first.
\<close>

fun normalize_segments :: "bool \<Rightarrow> string list \<Rightarrow> string list \<Rightarrow> string list" where
  "normalize_segments allowAboveRoot res [] = rev res"
| "normalize_segments allowAboveRoot res (s # ss) =
     (if s = [] \<or> s = ''.'' then normalize_segments allowAboveRoot res ss
      else if s = ''..'' then
        (if res \<noteq> [] \<and> hd res \<noteq> ''..'' then normalize_segments allowAboveRoot (tl res) ss
         else if allowAboveRoot then normalize_segments allowAboveRoot (''..'' # res) ss
         else normalize_segments allowAboveRoot res ss)
      else normalize_segments allowAboveRoot (s # res) ss)"

definition normalizeString :: "string \<Rightarrow> bool \<Rightarrow> string" where
  "normalizeString path allowAboveRoot =
     join_with ''/'' (normalize_segments allowAboveRoot [] (split_on CHR ''/'' path))"

definition path_normalize :: "string \<Rightarrow> string" where
  "path_normalize path =
     (if path = [] then ''.''
      else
        let isAbsolute = (hd path = CHR ''/'');
            trailingSeparator = (last path = CHR ''/'');
            p = normalizeString path (\<not> isAbsolute)
        in if p = [] then (if isAbsolute then ''/'' else if trailingSeparator then ''./'' else ''.'')
           else (if isAbsolute then ''/'' else []) @ p @ (if trailingSeparator then ''/'' else []))"

definition path_join :: "string list \<Rightarrow> string" where
  "path_join args =
     (let joined = join_with ''/'' (filter (\<lambda>arg. arg \<noteq> []) args)
      in if joined = [] then ''.'' else path_normalize joined)"

section \<open>The filesystem behind \<^verbatim>\<open>fs/promises\<close>\<close>

text \<open>
  A POSIX tree of regular files and directories, without links and without permission
  bits: each entry is keyed by its location, the list of names from the root, and the
  root itself is always a directory. A buffer is a list of bytes.

  The calls below fail for the reasons the tree itself gives: a missing entry, a file
  where a directory has to be, a directory where a file has to be. What else makes a real
  call fail (a name beyond the length limit, a full disk, a denied permission, an I/O
  error) is not in the model: a call can return here that a real filesystem refuses.
\<close>

type_synonym buffer = "8 word list"

datatype node = File buffer | Dir

record filesystem =
  entries :: "(string list \<times> node) list"
  cwd :: "string list"

datatype errno = ENOENT | ENOTDIR | EISDIR | EEXIST | ENOTEMPTY | EINVAL | EBUSY

text \<open>
  What a call can throw: \<^verbatim>\<open>new Error(message)\<close> of the module, or the system error of a
  filesystem call.
\<close>

datatype error = Error string | SystemError errno

text \<open>
  Name resolution. The paths that reach the filesystem come out of \<^verbatim>\<open>path.join\<close> or are
  the configured base path, so the walk is lexical: \<open>..\<close> steps to the parent (the root is
  its own parent), and a relative path starts at the working directory.
\<close>

fun fs_walk :: "string list \<Rightarrow> string list \<Rightarrow> string list" where
  "fs_walk cur [] = cur"
| "fs_walk cur (s # ss) =
     (if s = [] \<or> s = ''.'' then fs_walk cur ss
      else if s = ''..'' then fs_walk (butlast cur) ss
      else fs_walk (cur @ [s]) ss)"

definition is_absolute :: "string \<Rightarrow> bool" where
  "is_absolute path \<longleftrightarrow> path \<noteq> [] \<and> hd path = CHR ''/''"

definition trailing_slash :: "string \<Rightarrow> bool" where
  "trailing_slash path \<longleftrightarrow> path \<noteq> [] \<and> last path = CHR ''/''"

definition fs_resolve :: "filesystem \<Rightarrow> string \<Rightarrow> string list" where
  "fs_resolve fs path =
     fs_walk (if is_absolute path then [] else cwd fs) (split_on CHR ''/'' path)"

definition node_at :: "filesystem \<Rightarrow> string list \<Rightarrow> node option" where
  "node_at fs p = (if p = [] then Some Dir else map_of (entries fs) p)"

definition is_dir :: "filesystem \<Rightarrow> string list \<Rightarrow> bool" where
  "is_dir fs p \<longleftrightarrow> node_at fs p = Some Dir"

definition is_file :: "filesystem \<Rightarrow> string list \<Rightarrow> bool" where
  "is_file fs p \<longleftrightarrow> (case node_at fs p of Some (File c) \<Rightarrow> True | _ \<Rightarrow> False)"

text \<open>Every directory above the location exists.\<close>

definition reachable :: "filesystem \<Rightarrow> string list \<Rightarrow> bool" where
  "reachable fs p \<longleftrightarrow> list_all (is_dir fs) (butlast (prefixes p))"

text \<open>
  What a path names: nothing for the empty path, for a location below a missing directory
  or a file, and for a file named with a trailing slash.
\<close>

definition lookup :: "filesystem \<Rightarrow> string \<Rightarrow> errno + node" where
  "lookup fs path =
     (if path = [] then Inl ENOENT
      else
        let p = fs_resolve fs path
        in if \<not> reachable fs p then Inl ENOENT
           else case node_at fs p of
                  None \<Rightarrow> Inl ENOENT
                | Some Dir \<Rightarrow> Inr Dir
                | Some (File c) \<Rightarrow> if trailing_slash path then Inl ENOTDIR else Inr (File c))"

text \<open>
  An awaited call takes the filesystem and gives back what it threw or returned, with the
  filesystem it left behind.
\<close>

type_synonym 'a io = "filesystem \<Rightarrow> (error + 'a) \<times> filesystem"

definition io_return :: "'a \<Rightarrow> 'a io" where
  "io_return v = (\<lambda>fs. (Inr v, fs))"

definition io_throw :: "error \<Rightarrow> 'a io" where
  "io_throw e = (\<lambda>fs. (Inl e, fs))"

definition io_bind :: "'a io \<Rightarrow> ('a \<Rightarrow> 'b io) \<Rightarrow> 'b io" where
  "io_bind m f = (\<lambda>fs. case m fs of (Inl e, fs') \<Rightarrow> (Inl e, fs') | (Inr v, fs') \<Rightarrow> f v fs')"

definition io_catch :: "'a io \<Rightarrow> (error \<Rightarrow> 'a io) \<Rightarrow> 'a io" where
  "io_catch m h = (\<lambda>fs. case m fs of (Inl e, fs') \<Rightarrow> h e fs' | (Inr v, fs') \<Rightarrow> (Inr v, fs'))"

text \<open>\<^verbatim>\<open>fs.access(path)\<close>, mode \<^verbatim>\<open>F_OK\<close>.\<close>

definition fs_access :: "string \<Rightarrow> unit io" where
  "fs_access path = (\<lambda>fs. case lookup fs path of
       Inl e \<Rightarrow> (Inl (SystemError e), fs)
     | Inr n \<Rightarrow> (Inr (), fs))"

text \<open>\<^verbatim>\<open>fs.readFile(path)\<close>.\<close>

definition fs_readFile :: "string \<Rightarrow> buffer io" where
  "fs_readFile path = (\<lambda>fs. case lookup fs path of
       Inl e \<Rightarrow> (Inl (SystemError e), fs)
     | Inr Dir \<Rightarrow> (Inl (SystemError EISDIR), fs)
     | Inr (File c) \<Rightarrow> (Inr c, fs))"

text \<open>\<^verbatim>\<open>fs.writeFile(path, data)\<close>: creates the file or replaces its content.\<close>

definition fs_writeFile :: "string \<Rightarrow> buffer \<Rightarrow> unit io" where
  "fs_writeFile path data = (\<lambda>fs.
     if path = [] then (Inl (SystemError ENOENT), fs)
     else
       let p = fs_resolve fs path
       in if \<not> reachable fs p then (Inl (SystemError ENOENT), fs)
          else if trailing_slash path \<or> is_dir fs p then (Inl (SystemError EISDIR), fs)
          else (Inr (), fs\<lparr>entries := AList.update p (File data) (entries fs)\<rparr>))"

text \<open>
  \<^verbatim>\<open>fs.mkdir(path, { recursive: true })\<close>: every missing directory down to the path is
  created; a file on the way, or at the path, makes the call fail.
\<close>

definition fs_mkdir_recursive :: "string \<Rightarrow> unit io" where
  "fs_mkdir_recursive path = (\<lambda>fs.
     if path = [] then (Inl (SystemError ENOENT), fs)
     else
       let p = fs_resolve fs path
       in if list_ex (is_file fs) (prefixes p) then (Inl (SystemError EEXIST), fs)
          else (Inr (), fs\<lparr>entries :=
                  map (\<lambda>q. (q, Dir)) (filter (\<lambda>q. node_at fs q = None) (prefixes p)) @ entries fs\<rparr>))"

text \<open>\<^verbatim>\<open>fs.unlink(path)\<close>.\<close>

definition fs_unlink :: "string \<Rightarrow> unit io" where
  "fs_unlink path = (\<lambda>fs. case lookup fs path of
       Inl e \<Rightarrow> (Inl (SystemError e), fs)
     | Inr Dir \<Rightarrow> (Inl (SystemError EISDIR), fs)
     | Inr (File c) \<Rightarrow> (Inr (), fs\<lparr>entries := AList.delete (fs_resolve fs path) (entries fs)\<rparr>))"

definition has_children :: "filesystem \<Rightarrow> string list \<Rightarrow> bool" where
  "has_children fs p \<longleftrightarrow> list_ex (\<lambda>(q, n). strict_prefix p q) (entries fs)"

text \<open>
  \<^verbatim>\<open>fs.rename(oldPath, newPath)\<close>, the atomic \<^verbatim>\<open>rename(2)\<close>: a failing call changes
  nothing; when both paths name the same entry the call succeeds and changes nothing; a
  file replaces a file, a directory replaces an empty directory and takes what is below it
  along.
\<close>

definition fs_rename :: "string \<Rightarrow> string \<Rightarrow> unit io" where
  "fs_rename oldPath newPath = (\<lambda>fs. case lookup fs oldPath of
       Inl e \<Rightarrow> (Inl (SystemError e), fs)
     | Inr src \<Rightarrow>
         if newPath = [] then (Inl (SystemError ENOENT), fs)
         else
           let old = fs_resolve fs oldPath; new = fs_resolve fs newPath
           in if \<not> reachable fs new then (Inl (SystemError ENOENT), fs)
              else case src of
                  File c \<Rightarrow>
                    if trailing_slash newPath then (Inl (SystemError ENOTDIR), fs)
                    else if is_dir fs new then (Inl (SystemError EISDIR), fs)
                    else if old = new then (Inr (), fs)
                    else (Inr (), fs\<lparr>entries :=
                            AList.update new (File c) (AList.delete old (entries fs))\<rparr>)
                | Dir \<Rightarrow>
                    if old = new then (Inr (), fs)
                    else if old = [] then (Inl (SystemError EBUSY), fs)
                    else if prefix old new then (Inl (SystemError EINVAL), fs)
                    else if is_file fs new then (Inl (SystemError ENOTDIR), fs)
                    else if has_children fs new then (Inl (SystemError ENOTEMPTY), fs)
                    else (Inr (), fs\<lparr>entries :=
                            map (\<lambda>(q, n). if prefix old q then (new @ drop (length old) q, n) else (q, n))
                              (AList.delete new (entries fs))\<rparr>))"

section \<open>The file store (\<^verbatim>\<open>src/lib/file-storage.ts\<close>)\<close>

text \<open>
  The module reads \<^verbatim>\<open>process.env.STORAGE_PATH\<close> once; the model takes it as the argument
  \<open>env\<close> of every operation. \<^verbatim>\<open>Date.now()\<close> is the argument \<open>timestamp\<close> of the two
  operations that read the clock. Logging is left out.
\<close>

definition STORAGE_BASE_PATH :: "string option \<Rightarrow> string" where
  "STORAGE_BASE_PATH env =
     (case env of Some v \<Rightarrow> if v \<noteq> [] then v else ''/app/storage'' | None \<Rightarrow> ''/app/storage'')"

definition UPLOADS_FOLDER :: "string option \<Rightarrow> string" where
  "UPLOADS_FOLDER env = path_join [STORAGE_BASE_PATH env, ''uploads'']"

definition initializeStorage :: "string option \<Rightarrow> unit io" where
  "initializeStorage env =
     io_catch (fs_mkdir_recursive (UPLOADS_FOLDER env))
       (\<lambda>error. io_throw (Error ''Storage initialization failed''))"

definition uploadFile :: "string option \<Rightarrow> nat \<Rightarrow> buffer \<Rightarrow> string \<Rightarrow> string io" where
  "uploadFile env timestamp buffer fileName =
     io_catch
       (io_bind (initializeStorage env) (\<lambda>_.
          let sanitizedFileName = replace_outside_class fileName;
              uniqueFileName = number_toString timestamp @ ''-'' @ sanitizedFileName;
              filePath = path_join [UPLOADS_FOLDER env, uniqueFileName]
          in io_bind (fs_writeFile filePath buffer) (\<lambda>_.
               let relativePath = ''uploads/'' @ uniqueFileName
               in io_return relativePath)))
       (\<lambda>error. io_throw (Error ''File upload failed''))"

definition getFilePath :: "string option \<Rightarrow> string \<Rightarrow> string io" where
  "getFilePath env relativePath =
     io_catch
       (let fullPath = path_join [STORAGE_BASE_PATH env, relativePath]
        in io_bind (fs_access fullPath) (\<lambda>_. io_return fullPath))
       (\<lambda>error. io_throw (Error ''File not found''))"

definition readFile :: "string option \<Rightarrow> string \<Rightarrow> buffer io" where
  "readFile env relativePath =
     io_catch
       (io_bind (getFilePath env relativePath) (\<lambda>fullPath.
          io_bind (fs_readFile fullPath) (\<lambda>buffer. io_return buffer)))
       (\<lambda>error. io_throw (Error ''File read failed''))"

definition deleteFile :: "string option \<Rightarrow> string \<Rightarrow> unit io" where
  "deleteFile env relativePath =
     io_catch
       (let fullPath = path_join [STORAGE_BASE_PATH env, relativePath]
        in fs_unlink fullPath)
       (\<lambda>error. io_return ())"

definition renameFile :: "string option \<Rightarrow> nat \<Rightarrow> string \<Rightarrow> string \<Rightarrow> string io" where
  "renameFile env timestamp oldPath newFileName =
     io_catch
       (let oldFullPath = path_join [STORAGE_BASE_PATH env, oldPath];
            sanitizedFileName = replace_outside_class newFileName;
            uniqueFileName = number_toString timestamp @ ''-'' @ sanitizedFileName;
            newRelativePath = ''uploads/'' @ uniqueFileName;
            newFullPath = path_join [STORAGE_BASE_PATH env, newRelativePath]
        in io_bind (fs_rename oldFullPath newFullPath) (\<lambda>_. io_return newRelativePath))
       (\<lambda>error. io_throw (Error ''File rename failed''))"

definition checkStorage :: "string option \<Rightarrow> bool io" where
  "checkStorage env =
     io_catch
       (io_bind (fs_access (STORAGE_BASE_PATH env)) (\<lambda>_. io_return True))
       (\<lambda>_. io_catch
              (io_bind (initializeStorage env) (\<lambda>_. io_return True))
              (\<lambda>error. io_return False))"

text \<open>The five failures of the module, by the message each carries.\<close>

definition StorageInitError :: error where "StorageInitError = Error ''Storage initialization failed''"
definition UploadError :: error where "UploadError = Error ''File upload failed''"
definition NotFoundError :: error where "NotFoundError = Error ''File not found''"
definition ReadError :: error where "ReadError = Error ''File read failed''"
definition RenameError :: error where "RenameError = Error ''File rename failed''"

text \<open>
  The derived relative path in the words of the specification:
  \<^verbatim>\<open>uploads/<timestamp>-<name with every character outside [a-zA-Z0-9.-] replaced by _>\<close>.
\<close>

definition spec_relative_path :: "nat \<Rightarrow> string \<Rightarrow> string" where
  "spec_relative_path timestamp name =
     ''uploads/'' @ number_toString timestamp @ ''-'' @ map (\<lambda>c. if in_class c then c else CHR ''_'') name"

text \<open>
  Filesystems for the examples: an empty disk; a store holding one file, \<open>hi\<close> under
  \<^verbatim>\<open>uploads/5-a\<close>; and the same store beside a file \<^verbatim>\<open>/etc/passwd\<close>.
\<close>

definition fs_empty :: filesystem where
  "fs_empty = \<lparr>entries = [], cwd = []\<rparr>"

definition fs_initialized :: filesystem where
  "fs_initialized =
     \<lparr>entries = [([''app''], Dir), ([''app'', ''storage''], Dir),
                 ([''app'', ''storage'', ''uploads''], Dir)],
      cwd = []\<rparr>"

definition fs_stored :: filesystem where
  "fs_stored =
     \<lparr>entries = [([''app''], Dir), ([''app'', ''storage''], Dir),
                 ([''app'', ''storage'', ''uploads''], Dir),
                 ([''app'', ''storage'', ''uploads'', ''5-a''], File [104, 105])],
      cwd = []\<rparr>"

definition fs_with_etc :: filesystem where
  "fs_with_etc =
     \<lparr>entries = [([''etc''], Dir), ([''etc'', ''passwd''], File [114, 111, 111, 116]),
                 ([''app''], Dir), ([''app'', ''storage''], Dir),
                 ([''app'', ''storage'', ''uploads''], Dir)],
      cwd = []\<rparr>"

text \<open>The empty disk after the upload of \<open>hello\<close> as \<^verbatim>\<open>report 1.pdf\<close>.\<close>

definition fs_report :: filesystem where
  "fs_report =
     \<lparr>entries = [([''app''], Dir), ([''app'', ''storage''], Dir),
                 ([''app'', ''storage'', ''uploads''], Dir),
                 ([''app'', ''storage'', ''uploads'', ''1700000000123-report_1.pdf''],
                  File [104, 101, 108, 108, 111])],
      cwd = []\<rparr>"

text \<open>
  Two more: a disk where \<^verbatim>\<open>/app\<close> is a file, so that nothing can be created below it, and
  a base directory that holds a file and no \<^verbatim>\<open>uploads\<close> folder.
\<close>

definition fs_blocked :: filesystem where
  "fs_blocked = \<lparr>entries = [([''app''], File [])], cwd = []\<rparr>"

definition fs_no_uploads :: filesystem where
  "fs_no_uploads =
     \<lparr>entries = [([''app''], Dir), ([''app'', ''storage''], Dir),
                 ([''app'', ''storage'', ''orphan.txt''], File [111])],
      cwd = []\<rparr>"

section \<open>Unfolding the operations\<close>

lemma io_simps:
  "io_return v fs = (Inr v, fs)"
  "io_throw e fs = (Inl e, fs)"
  "io_bind m f fs = (case m fs of (Inl e, fs') \<Rightarrow> (Inl e, fs') | (Inr v, fs') \<Rightarrow> f v fs')"
  "io_catch m h fs = (case m fs of (Inl e, fs') \<Rightarrow> h e fs' | (Inr v, fs') \<Rightarrow> (Inr v, fs'))"
  by (simp_all add: io_return_def io_throw_def io_bind_def io_catch_def)

lemmas path_defs = path_join_def path_normalize_def normalizeString_def

lemmas fs_defs = lookup_def fs_resolve_def is_absolute_def trailing_slash_def node_at_def
  is_dir_def is_file_def reachable_def fs_access_def fs_readFile_def fs_writeFile_def
  fs_mkdir_recursive_def fs_unlink_def fs_rename_def has_children_def

lemmas store_defs = uploadFile_def renameFile_def readFile_def getFilePath_def deleteFile_def
  checkStorage_def initializeStorage_def UPLOADS_FOLDER_def STORAGE_BASE_PATH_def
  StorageInitError_def UploadError_def NotFoundError_def ReadError_def RenameError_def

lemmas example_defs = fs_empty_def fs_initialized_def fs_stored_def fs_with_etc_def
  fs_blocked_def fs_no_uploads_def fs_report_def

lemmas eval_defs = store_defs io_simps path_defs fs_defs example_defs Let_def
  number_toString.simps digit_char_def in_class_def

section \<open>Splitting and the character class\<close>

lemma split_on_not_Nil [simp]: "split_on c s \<noteq> []"
  by (induction s) (auto split: list.splits)

lemma split_on_no_sep: "c \<notin> set s \<Longrightarrow> split_on c s = [s]"
  by (induction s) auto

lemma split_on_append_sep: "split_on c (a @ c # b) = split_on c a @ split_on c b"
  by (induction a) (auto split: list.splits)

lemma length_replace_outside_class [simp]: "length (replace_outside_class s) = length s"
  by (induction s) auto

lemma nth_replace_outside_class:
  "i < length s \<Longrightarrow>
   replace_outside_class s ! i = (if in_class (s ! i) then s ! i else CHR ''_'')"
  by (induction s arbitrary: i) (auto simp: nth_Cons split: nat.splits)

lemma replace_outside_class_map:
  "replace_outside_class s = map (\<lambda>c. if in_class c then c else CHR ''_'') s"
  by (induction s) auto

section \<open>Content types\<close>

lemma toLowerCase_char_dot: "toLowerCase_char c = CHR ''.'' \<longleftrightarrow> c = CHR ''.''"
proof
  assume low: "toLowerCase_char c = CHR ''.''"
  show "c = CHR ''.''"
  proof (rule ccontr)
    assume other: "c \<noteq> CHR ''.''"
    with low have capital:
      "(65 \<le> (of_char c :: nat) \<and> (of_char c :: nat) \<le> 90) \<or>
       (192 \<le> (of_char c :: nat) \<and> (of_char c :: nat) \<le> 222)"
      and moved: "char_of (of_char c + (32::nat)) = CHR ''.''"
      by (auto simp: toLowerCase_char_def less_eq_char_def split: if_splits)
    have "(of_char (char_of (of_char c + (32::nat))) :: nat) = (of_char c + (32::nat)) mod 256"
      by (rule of_char_of)
    with moved have m: "(of_char c + (32::nat)) mod 256 = 46" by simp
    from capital have "of_char c + (32::nat) < 256" by linarith
    then have "(of_char c + (32::nat)) mod 256 = of_char c + 32" by (rule mod_less)
    with m capital show False by linarith
  qed
next
  assume "c = CHR ''.''"
  then show "toLowerCase_char c = CHR ''.''"
    by (simp add: toLowerCase_char_def)
qed

text \<open>
  Only the piece after the last dot decides, and only up to case: a name with an extension
  gets the content type of the extension taken as a name.
\<close>

lemma getContentType_ext:
  assumes "CHR ''.'' \<notin> set ext"
  shows "getContentType (stem @ ''.'' @ ext) = getContentType ext"
proof -
  have d: "CHR ''.'' \<notin> set (toLowerCase ext)"
  proof
    assume "CHR ''.'' \<in> set (toLowerCase ext)"
    then obtain x where "x \<in> set ext" "toLowerCase_char x = CHR ''.''"
      by (auto simp: toLowerCase_def)
    with assms show False by (simp add: toLowerCase_char_dot)
  qed
  have "toLowerCase (stem @ ''.'' @ ext) = toLowerCase stem @ CHR ''.'' # toLowerCase ext"
    by (simp add: toLowerCase_def toLowerCase_char_dot[THEN iffD2])
  then show ?thesis
    using d by (simp add: getContentType_def split_on_append_sep split_on_no_sep)
qed

lemma getContentType_case_insensitive:
  "toLowerCase a = toLowerCase b \<Longrightarrow> getContentType a = getContentType b"
  by (simp add: getContentType_def)

lemma getContentType_examples:
  "getContentType ''IMG.PNG'' = ''image/png''"
  "getContentType ''report 1.pdf'' = ''application/pdf''"
  "getContentType ''scan.Jpeg'' = ''image/jpeg''"
  "getContentType ''scan.TIF'' = ''image/tiff''"
  "getContentType ''notes.txt'' = ''application/octet-stream''"
  "getContentType ''README'' = ''application/octet-stream''"
  by code_simp+

text \<open>
  C2. The claim: the recognised extensions map to their types, case-insensitively, and
  every unrecognised extension and every name with no extension at all gets
  \<^verbatim>\<open>application/octet-stream\<close>. The code takes the piece after the last dot, and a name
  without a dot is that piece whole: the name \<^verbatim>\<open>pdf\<close> has no extension and still gets
  \<^verbatim>\<open>application/pdf\<close>.
\<close>

theorem getContentType_name_without_dot:
  "CHR ''.'' \<notin> set ''pdf'' \<and> getContentType ''pdf'' = ''application/pdf'' \<and>
   getContentType ''pdf'' \<noteq> ''application/octet-stream''"
  by (simp add: getContentType_def toLowerCase_def toLowerCase_char_def)

section \<open>What the operations return\<close>

lemma uploadFile_Inr:
  assumes "fst (uploadFile env ts buf name fs) = Inr p"
  shows "p = ''uploads/'' @ number_toString ts @ ''-'' @ replace_outside_class name"
  using assms
  by (auto simp: uploadFile_def io_simps Let_def split: prod.splits sum.splits)

lemma renameFile_Inr:
  assumes "fst (renameFile env ts old name fs) = Inr p"
  shows "p = ''uploads/'' @ number_toString ts @ ''-'' @ replace_outside_class name"
  using assms
  by (auto simp: renameFile_def io_simps Let_def split: prod.splits sum.splits)

lemma getFilePath_unfold:
  "getFilePath env p fs =
     (case lookup fs (path_join [STORAGE_BASE_PATH env, p]) of
        Inl en \<Rightarrow> (Inl NotFoundError, fs)
      | Inr n \<Rightarrow> (Inr (path_join [STORAGE_BASE_PATH env, p]), fs))"
  by (simp add: getFilePath_def fs_access_def io_simps Let_def NotFoundError_def split: sum.splits)

lemma readFile_unfold:
  "readFile env p fs =
     (case lookup fs (path_join [STORAGE_BASE_PATH env, p]) of
        Inl en \<Rightarrow> (Inl ReadError, fs)
      | Inr Dir \<Rightarrow> (Inl ReadError, fs)
      | Inr (File c) \<Rightarrow> (Inr c, fs))"
  by (simp add: readFile_def getFilePath_unfold fs_readFile_def io_simps ReadError_def
      split: sum.splits node.splits)

section \<open>Reading a path that is not there\<close>

text \<open>
  C3, as claimed: for a relative path whose target does not exist, \<^verbatim>\<open>readFile\<close> fails with
  the \<^verbatim>\<open>NotFoundError\<close> of \<^verbatim>\<open>getFilePath\<close>, propagated unchanged. On the empty disk
  \<^verbatim>\<open>getFilePath\<close> fails with \<^verbatim>\<open>NotFoundError\<close>, and \<^verbatim>\<open>readFile\<close> of the same path fails
  with \<^verbatim>\<open>ReadError\<close> instead: its \<^verbatim>\<open>try\<close> block encloses the call of \<^verbatim>\<open>getFilePath\<close>.
\<close>

theorem readFile_not_found_counterexample:
  "fst (getFilePath None ''uploads/missing'' fs_empty) = Inl NotFoundError \<and>
   fst (readFile None ''uploads/missing'' fs_empty) = Inl ReadError \<and>
   fst (readFile None ''uploads/missing'' fs_empty) \<noteq> Inl NotFoundError"
  by (simp add: eval_defs)

text \<open>
  C3, amended: for every relative path whose target does not exist or is inaccessible,
  \<^verbatim>\<open>getFilePath\<close> fails with \<^verbatim>\<open>NotFoundError\<close> and \<^verbatim>\<open>readFile\<close> fails with \<^verbatim>\<open>ReadError\<close>,
  the same error it raises when the target is there and the content read fails (the target
  is a directory); \<^verbatim>\<open>ReadError\<close> is the only error \<^verbatim>\<open>readFile\<close> raises, and a failing
  read leaves the filesystem as it was.
\<close>

theorem readFile_fails_with_ReadError:
  "(lookup fs (path_join [STORAGE_BASE_PATH env, relativePath]) = Inl en \<longrightarrow>
      getFilePath env relativePath fs = (Inl NotFoundError, fs) \<and>
      readFile env relativePath fs = (Inl ReadError, fs)) \<and>
   (lookup fs (path_join [STORAGE_BASE_PATH env, relativePath]) = Inr Dir \<longrightarrow>
      getFilePath env relativePath fs = (Inr (path_join [STORAGE_BASE_PATH env, relativePath]), fs) \<and>
      readFile env relativePath fs = (Inl ReadError, fs)) \<and>
   (fst (readFile env relativePath fs) = Inl e \<longrightarrow> e = ReadError)"
  by (auto simp: getFilePath_unfold readFile_unfold split: sum.splits node.splits)

theorem readFile_fails_with_ReadError_witness:
  "lookup fs_empty (path_join [STORAGE_BASE_PATH None, ''uploads/missing'']) = Inl ENOENT \<and>
   getFilePath None ''uploads/missing'' fs_empty = (Inl NotFoundError, fs_empty) \<and>
   readFile None ''uploads/missing'' fs_empty = (Inl ReadError, fs_empty) \<and>
   lookup fs_stored (path_join [STORAGE_BASE_PATH None, ''uploads'']) = Inr Dir \<and>
   readFile None ''uploads'' fs_stored = (Inl ReadError, fs_stored)"
proof -
  have missing:
    "lookup fs_empty (path_join [STORAGE_BASE_PATH None, ''uploads/missing'']) = Inl ENOENT"
    by (simp add: eval_defs)
  have directory: "lookup fs_stored (path_join [STORAGE_BASE_PATH None, ''uploads'']) = Inr Dir"
    by (simp add: eval_defs)
  from missing directory
    readFile_fails_with_ReadError [of fs_empty None "''uploads/missing''" ENOENT ReadError]
    readFile_fails_with_ReadError [of fs_stored None "''uploads''" ENOENT ReadError]
  show ?thesis by simp
qed

section \<open>Deleting\<close>

text \<open>
  C4: for every relative path, also one whose target does not exist, \<^verbatim>\<open>deleteFile\<close> never
  raises: whatever \<^verbatim>\<open>unlink\<close> throws is caught and the call returns normally.
\<close>

theorem deleteFile_never_raises: "\<exists>fs'. deleteFile env relativePath fs = (Inr (), fs')"
  by (auto simp: deleteFile_def io_simps Let_def split: prod.splits sum.splits)

section \<open>The derived relative path\<close>

text \<open>
  C5: for every file name, the sanitized name in the relative path that \<^verbatim>\<open>uploadFile\<close> and
  \<^verbatim>\<open>renameFile\<close> produce is as long as the name, and holds at each position the name's
  character when that is in \<^verbatim>\<open>[a-zA-Z0-9.-]\<close> and \<open>_\<close> otherwise.
\<close>

theorem sanitized_name_positional:
  assumes "fst (uploadFile env ts buf name fs) = Inr p \<or>
           fst (renameFile env ts old name fs) = Inr p"
  shows "\<exists>s. p = ''uploads/'' @ number_toString ts @ ''-'' @ s \<and> length s = length name \<and>
           (\<forall>i<length name. s ! i = (if in_class (name ! i) then name ! i else CHR ''_''))"
proof -
  from assms have "p = ''uploads/'' @ number_toString ts @ ''-'' @ replace_outside_class name"
    using uploadFile_Inr renameFile_Inr by blast
  then show ?thesis
    by (auto simp: nth_replace_outside_class)
qed

theorem sanitized_name_positional_witness:
  "fst (uploadFile None 5 [104, 105] ''a b/c.pdf'' fs_empty) = Inr ''uploads/5-a_b_c.pdf'' \<and>
   fst (renameFile None 7 ''uploads/5-a'' ''a b/c.pdf'' fs_stored) = Inr ''uploads/7-a_b_c.pdf'' \<and>
   (\<exists>s. ''uploads/5-a_b_c.pdf'' = ''uploads/'' @ number_toString 5 @ ''-'' @ s \<and>
        length s = length ''a b/c.pdf'' \<and>
        (\<forall>i<length ''a b/c.pdf''. s ! i =
           (if in_class (''a b/c.pdf'' ! i) then ''a b/c.pdf'' ! i else CHR ''_'')))"
proof -
  have up: "fst (uploadFile None 5 [104, 105] ''a b/c.pdf'' fs_empty) = Inr ''uploads/5-a_b_c.pdf''"
    by (simp add: eval_defs)
  have re:
    "fst (renameFile None 7 ''uploads/5-a'' ''a b/c.pdf'' fs_stored) = Inr ''uploads/7-a_b_c.pdf''"
    by (simp add: eval_defs)
  from sanitized_name_positional [OF disjI1 [OF up]] up re show ?thesis by blast
qed

text \<open>
  C9: for the same timestamp and the same file name, the relative path \<^verbatim>\<open>renameFile\<close>
  derives is the one \<^verbatim>\<open>uploadFile\<close> derives, and both are the path of the specification:
  \<^verbatim>\<open>uploads/\<close>, the timestamp, a hyphen, and the name with every character outside
  \<^verbatim>\<open>[a-zA-Z0-9.-]\<close> replaced by \<open>_\<close>.
\<close>

theorem renameFile_path_as_uploadFile:
  assumes "fst (uploadFile env ts buf name fs) = Inr p"
    and "fst (renameFile env ts old name fs') = Inr p'"
  shows "p' = p \<and> p = spec_relative_path ts name"
  using uploadFile_Inr [OF assms(1)] renameFile_Inr [OF assms(2)]
  by (simp add: spec_relative_path_def replace_outside_class_map)

theorem renameFile_path_as_uploadFile_witness:
  "fst (uploadFile None 7 [104, 105] ''b c'' fs_initialized) = Inr ''uploads/7-b_c'' \<and>
   fst (renameFile None 7 ''uploads/5-a'' ''b c'' fs_stored) = Inr ''uploads/7-b_c'' \<and>
   ''uploads/7-b_c'' = spec_relative_path 7 ''b c''"
proof -
  have up: "fst (uploadFile None 7 [104, 105] ''b c'' fs_initialized) = Inr ''uploads/7-b_c''"
    by (simp add: eval_defs)
  have re: "fst (renameFile None 7 ''uploads/5-a'' ''b c'' fs_stored) = Inr ''uploads/7-b_c''"
    by (simp add: eval_defs)
  from renameFile_path_as_uploadFile [OF up re] up re show ?thesis by simp
qed

section \<open>Paths that leave the base directory\<close>

lemma deleteFile_unfold:
  "deleteFile env relativePath fs =
     (Inr (), snd (fs_unlink (path_join [STORAGE_BASE_PATH env, relativePath]) fs))"
  by (auto simp: deleteFile_def io_simps Let_def split: prod.splits sum.splits)

text \<open>
  C10: \<^verbatim>\<open>getFilePath\<close>, \<^verbatim>\<open>readFile\<close> and \<^verbatim>\<open>deleteFile\<close> join the caller's relative path to
  the base directory and hand the result to the filesystem as it is, whatever the path.
  For the relative path \<^verbatim>\<open>../../etc/passwd\<close> the joined path is \<^verbatim>\<open>/etc/passwd\<close>, outside
  \<^verbatim>\<open>/app/storage\<close>, and the three operations find, read and delete that file.
\<close>

theorem relative_path_escapes_base:
  "getFilePath env relativePath fs =
     (case lookup fs (path_join [STORAGE_BASE_PATH env, relativePath]) of
        Inl en \<Rightarrow> (Inl NotFoundError, fs)
      | Inr n \<Rightarrow> (Inr (path_join [STORAGE_BASE_PATH env, relativePath]), fs)) \<and>
   readFile env relativePath fs =
     (case lookup fs (path_join [STORAGE_BASE_PATH env, relativePath]) of
        Inl en \<Rightarrow> (Inl ReadError, fs)
      | Inr Dir \<Rightarrow> (Inl ReadError, fs)
      | Inr (File c) \<Rightarrow> (Inr c, fs)) \<and>
   deleteFile env relativePath fs =
     (Inr (), snd (fs_unlink (path_join [STORAGE_BASE_PATH env, relativePath]) fs)) \<and>
   path_join [STORAGE_BASE_PATH None, ''../../etc/passwd''] = ''/etc/passwd'' \<and>
   \<not> prefix (fs_resolve fs_with_etc (STORAGE_BASE_PATH None))
       (fs_resolve fs_with_etc (path_join [STORAGE_BASE_PATH None, ''../../etc/passwd''])) \<and>
   getFilePath None ''../../etc/passwd'' fs_with_etc = (Inr ''/etc/passwd'', fs_with_etc) \<and>
   readFile None ''../../etc/passwd'' fs_with_etc = (Inr [114, 111, 111, 116], fs_with_etc) \<and>
   deleteFile None ''../../etc/passwd'' fs_with_etc =
     (Inr (), \<lparr>entries = [([''etc''], Dir), ([''app''], Dir), ([''app'', ''storage''], Dir),
                           ([''app'', ''storage'', ''uploads''], Dir)], cwd = []\<rparr>)"
proof -
  have escape:
    "path_join [STORAGE_BASE_PATH None, ''../../etc/passwd''] = ''/etc/passwd''"
    "\<not> prefix (fs_resolve fs_with_etc (STORAGE_BASE_PATH None))
       (fs_resolve fs_with_etc (path_join [STORAGE_BASE_PATH None, ''../../etc/passwd'']))"
    "getFilePath None ''../../etc/passwd'' fs_with_etc = (Inr ''/etc/passwd'', fs_with_etc)"
    "readFile None ''../../etc/passwd'' fs_with_etc = (Inr [114, 111, 111, 116], fs_with_etc)"
    "deleteFile None ''../../etc/passwd'' fs_with_etc =
     (Inr (), \<lparr>entries = [([''etc''], Dir), ([''app''], Dir), ([''app'', ''storage''], Dir),
                           ([''app'', ''storage'', ''uploads''], Dir)], cwd = []\<rparr>)"
    by (simp_all add: eval_defs)
  show ?thesis
    by (intro conjI getFilePath_unfold readFile_unfold deleteFile_unfold escape)
qed

section \<open>Creating the directories, and the health check\<close>

lemma fs_resolve_cwd: "cwd fs' = cwd fs \<Longrightarrow> fs_resolve fs' path = fs_resolve fs path"
  by (simp add: fs_resolve_def)

lemma is_file_iff: "is_file fs p \<longleftrightarrow> (\<exists>c. node_at fs p = Some (File c))"
  by (auto simp: is_file_def split: option.splits node.splits)

lemma not_file_cases: "\<not> is_file fs p \<longleftrightarrow> node_at fs p = None \<or> node_at fs p = Some Dir"
  by (auto simp: is_file_def split: option.splits node.splits)

lemma map_of_new_dirs:
  "map_of (map (\<lambda>q. (q, Dir)) qs) q = (if q \<in> set qs then Some Dir else None)"
  by (induction qs) auto

lemma fs_mkdir_recursive_cases:
  "fs_mkdir_recursive path fs = (Inr (), fs') \<Longrightarrow>
     path \<noteq> [] \<and> \<not> list_ex (is_file fs) (prefixes (fs_resolve fs path)) \<and> cwd fs' = cwd fs \<and>
     entries fs' = map (\<lambda>q. (q, Dir)) (filter (\<lambda>q. node_at fs q = None) (prefixes (fs_resolve fs path)))
                   @ entries fs"
  by (auto simp: fs_mkdir_recursive_def Let_def split: if_splits)

lemma fs_mkdir_recursive_node_at:
  assumes "fs_mkdir_recursive path fs = (Inr (), fs')"
  shows "node_at fs' q = (if prefix q (fs_resolve fs path) then Some Dir else node_at fs q)"
proof -
  let ?p = "fs_resolve fs path"
  from fs_mkdir_recursive_cases [OF assms]
  have nofile: "\<not> list_ex (is_file fs) (prefixes ?p)"
    and ents: "entries fs' =
      map (\<lambda>q. (q, Dir)) (filter (\<lambda>q. node_at fs q = None) (prefixes ?p)) @ entries fs"
    by simp_all
  show ?thesis
  proof (cases "q = []")
    case True
    then show ?thesis by (simp add: node_at_def)
  next
    case False
    show ?thesis
    proof (cases "prefix q ?p")
      case True
      with nofile have "\<not> is_file fs q"
        by (auto simp: list_ex_iff in_set_prefixes)
      then have "node_at fs q = None \<or> node_at fs q = Some Dir"
        by (simp add: not_file_cases)
      with True False show ?thesis
        by (auto simp: node_at_def ents map_add_def map_of_new_dirs in_set_prefixes)
    next
      case nop: False
      with False show ?thesis
        by (simp add: node_at_def ents map_add_def map_of_new_dirs in_set_prefixes)
    qed
  qed
qed

lemma fs_mkdir_recursive_again:
  assumes "fs_mkdir_recursive path fs = (Inr (), fs')"
  shows "fs_mkdir_recursive path fs' = (Inr (), fs')"
proof -
  from fs_mkdir_recursive_cases [OF assms]
  have ne: "path \<noteq> []" and cw: "cwd fs' = cwd fs" by simp_all
  have res: "fs_resolve fs' path = fs_resolve fs path"
    using cw by (rule fs_resolve_cwd)
  have dirs: "\<And>q. prefix q (fs_resolve fs path) \<Longrightarrow> node_at fs' q = Some Dir"
    by (simp add: fs_mkdir_recursive_node_at [OF assms])
  then have nofile: "\<not> list_ex (is_file fs') (prefixes (fs_resolve fs path))"
    by (auto simp: list_ex_iff in_set_prefixes is_file_def)
  have "filter (\<lambda>q. node_at fs' q = None) (prefixes (fs_resolve fs path)) = []"
    using dirs by (auto simp: filter_empty_conv in_set_prefixes)
  with ne nofile res show ?thesis
    by (simp add: fs_mkdir_recursive_def)
qed

lemma initializeStorage_unfold:
  "initializeStorage env fs =
     (case fs_mkdir_recursive (UPLOADS_FOLDER env) fs of
        (Inl e, fs') \<Rightarrow> (Inl StorageInitError, fs')
      | (Inr u, fs') \<Rightarrow> (Inr (), fs'))"
  by (simp add: initializeStorage_def io_simps StorageInitError_def split: prod.splits sum.splits)

lemma initializeStorage_again:
  assumes "initializeStorage env fs = (Inr (), fs')"
  shows "initializeStorage env fs' = (Inr (), fs')"
proof -
  from assms have "fs_mkdir_recursive (UPLOADS_FOLDER env) fs = (Inr (), fs')"
    by (auto simp: initializeStorage_unfold split: prod.splits sum.splits)
  then have "fs_mkdir_recursive (UPLOADS_FOLDER env) fs' = (Inr (), fs')"
    by (rule fs_mkdir_recursive_again)
  then show ?thesis by (simp add: initializeStorage_unfold)
qed

lemma checkStorage_unfold:
  "checkStorage env fs =
     (case fs_access (STORAGE_BASE_PATH env) fs of
        (Inr u, fs1) \<Rightarrow> (Inr True, fs1)
      | (Inl e, fs1) \<Rightarrow>
          (case initializeStorage env fs1 of
             (Inr u, fs2) \<Rightarrow> (Inr True, fs2)
           | (Inl e', fs2) \<Rightarrow> (Inr False, fs2)))"
  by (simp add: checkStorage_def io_simps split: prod.splits sum.splits)

lemma fs_access_state: "snd (fs_access path fs) = fs"
  by (simp add: fs_access_def split: sum.splits)

text \<open>
  C8: \<^verbatim>\<open>checkStorage\<close> never throws. On every filesystem it returns a boolean: true exactly
  when the base directory is accessible or the initialization succeeds, false exactly when
  the access check and the initialization both fail; and it returns true on the filesystem
  that a successful \<^verbatim>\<open>initializeStorage\<close> leaves behind, whatever was there before.
\<close>

theorem checkStorage_never_throws:
  "(\<exists>b fs'. checkStorage env fs = (Inr b, fs')) \<and>
   (fst (checkStorage env fs) = Inr True \<longleftrightarrow>
      fst (fs_access (STORAGE_BASE_PATH env) fs) = Inr () \<or> fst (initializeStorage env fs) = Inr ()) \<and>
   (fst (checkStorage env fs) = Inr False \<longleftrightarrow>
      (\<exists>e. fst (fs_access (STORAGE_BASE_PATH env) fs) = Inl e) \<and>
      (\<exists>e. fst (initializeStorage env fs) = Inl e)) \<and>
   (initializeStorage env fs0 = (Inr (), fs) \<longrightarrow> fst (checkStorage env fs) = Inr True)"
proof -
  obtain r fs1 where acc: "fs_access (STORAGE_BASE_PATH env) fs = (r, fs1)"
    by (cases "fs_access (STORAGE_BASE_PATH env) fs")
  with fs_access_state [of "STORAGE_BASE_PATH env" fs] have fs1: "fs1 = fs" by simp
  obtain r2 fs2 where ini: "initializeStorage env fs = (r2, fs2)"
    by (cases "initializeStorage env fs")
  have again: "initializeStorage env fs0 = (Inr (), fs) \<Longrightarrow> r2 = Inr ()"
    using initializeStorage_again [of env fs0 fs] ini by simp
  show ?thesis
    using acc fs1 ini again
    by (cases r; cases r2) (auto simp: checkStorage_unfold)
qed

theorem checkStorage_never_throws_witness:
  "initializeStorage None fs_empty = (Inr (), fs_initialized) \<and>
   fst (fs_access (STORAGE_BASE_PATH None) fs_empty) = Inl (SystemError ENOENT) \<and>
   fst (checkStorage None fs_initialized) = Inr True \<and>
   fst (checkStorage None fs_empty) = Inr True \<and>
   fst (checkStorage None fs_blocked) = Inr False"
proof -
  have ini: "initializeStorage None fs_empty = (Inr (), fs_initialized)"
    by (simp add: eval_defs)
  have acc: "fst (fs_access (STORAGE_BASE_PATH None) fs_empty) = Inl (SystemError ENOENT)"
    by (simp add: eval_defs)
  have acc_b: "fst (fs_access (STORAGE_BASE_PATH None) fs_blocked) = Inl (SystemError ENOENT)"
    by (simp add: eval_defs)
  have ini_b: "fst (initializeStorage None fs_blocked) = Inl StorageInitError"
    by (simp add: eval_defs)
  from checkStorage_never_throws [of None fs_initialized fs_empty]
    checkStorage_never_throws [of None fs_empty fs_empty]
    checkStorage_never_throws [of None fs_blocked fs_empty]
    ini acc acc_b ini_b
  show ?thesis by simp
qed

section \<open>A rename that fails\<close>

lemma renameFile_unfold:
  "renameFile env ts oldPath newName fs =
     (case fs_rename (path_join [STORAGE_BASE_PATH env, oldPath])
             (path_join [STORAGE_BASE_PATH env,
                ''uploads/'' @ number_toString ts @ ''-'' @ replace_outside_class newName]) fs of
        (Inl e, fs') \<Rightarrow> (Inl RenameError, fs')
      | (Inr u, fs') \<Rightarrow>
          (Inr (''uploads/'' @ number_toString ts @ ''-'' @ replace_outside_class newName), fs'))"
  by (simp add: renameFile_def io_simps Let_def RenameError_def split: prod.splits sum.splits)

lemma fs_rename_failure_state:
  "fst (fs_rename oldPath newPath fs) = Inl e \<Longrightarrow> snd (fs_rename oldPath newPath fs) = fs"
  by (auto simp: fs_rename_def Let_def split: sum.splits node.splits if_splits)

lemma fs_rename_missing:
  "lookup fs oldPath = Inl en \<Longrightarrow> fs_rename oldPath newPath fs = (Inl (SystemError en), fs)"
  by (simp add: fs_rename_def)

text \<open>
  C7: \<^verbatim>\<open>renameFile\<close> fails with \<^verbatim>\<open>RenameError\<close> whenever the old path names nothing and
  whenever the underlying rename fails; \<^verbatim>\<open>RenameError\<close> is its only error, and a failing
  call leaves the filesystem, and with it the file at the old path, exactly as it was.
\<close>

theorem renameFile_failure_leaves_store:
  "(lookup fs (path_join [STORAGE_BASE_PATH env, oldPath]) = Inl en \<longrightarrow>
      renameFile env ts oldPath newName fs = (Inl RenameError, fs)) \<and>
   (fst (fs_rename (path_join [STORAGE_BASE_PATH env, oldPath])
           (path_join [STORAGE_BASE_PATH env,
              ''uploads/'' @ number_toString ts @ ''-'' @ replace_outside_class newName]) fs) = Inl e \<longrightarrow>
      renameFile env ts oldPath newName fs = (Inl RenameError, fs)) \<and>
   (fst (renameFile env ts oldPath newName fs) = Inl e' \<longrightarrow>
      e' = RenameError \<and> snd (renameFile env ts oldPath newName fs) = fs)"
proof -
  let ?old = "path_join [STORAGE_BASE_PATH env, oldPath]"
  let ?new = "path_join [STORAGE_BASE_PATH env,
                ''uploads/'' @ number_toString ts @ ''-'' @ replace_outside_class newName]"
  obtain r fs1 where ren: "fs_rename ?old ?new fs = (r, fs1)"
    by (cases "fs_rename ?old ?new fs")
  have unchanged: "\<And>x. r = Inl x \<Longrightarrow> fs1 = fs"
    using fs_rename_failure_state [of ?old ?new fs] ren by simp
  have missing: "lookup fs ?old = Inl en \<Longrightarrow> r = Inl (SystemError en)"
    using fs_rename_missing [of fs ?old en ?new] ren by simp
  show ?thesis
    using ren unchanged missing
    by (cases r) (auto simp: renameFile_unfold)
qed

theorem renameFile_failure_leaves_store_witness:
  "lookup fs_empty (path_join [STORAGE_BASE_PATH None, ''uploads/5-a'']) = Inl ENOENT \<and>
   renameFile None 7 ''uploads/5-a'' ''b'' fs_empty = (Inl RenameError, fs_empty) \<and>
   lookup fs_no_uploads (path_join [STORAGE_BASE_PATH None, ''orphan.txt'']) = Inr (File [111]) \<and>
   renameFile None 7 ''orphan.txt'' ''b'' fs_no_uploads = (Inl RenameError, fs_no_uploads)"
proof -
  have missing: "lookup fs_empty (path_join [STORAGE_BASE_PATH None, ''uploads/5-a'']) = Inl ENOENT"
    by (simp add: eval_defs)
  have there: "lookup fs_no_uploads (path_join [STORAGE_BASE_PATH None, ''orphan.txt'']) = Inr (File [111])"
    by (simp add: eval_defs)
  have fails: "fst (fs_rename (path_join [STORAGE_BASE_PATH None, ''orphan.txt''])
           (path_join [STORAGE_BASE_PATH None,
              ''uploads/'' @ number_toString 7 @ ''-'' @ replace_outside_class ''b'']) fs_no_uploads)
         = Inl (SystemError ENOENT)"
    by (simp add: eval_defs)
  from renameFile_failure_leaves_store [of fs_empty None "''uploads/5-a''" ENOENT 7 "''b''" "SystemError ENOENT" RenameError]
    renameFile_failure_leaves_store [of fs_no_uploads None "''orphan.txt''" ENOENT 7 "''b''" "SystemError ENOENT" RenameError]
    missing there fails
  show ?thesis by simp
qed

section \<open>Segments, normalization and name resolution\<close>















lemma split_on_Cons_sep: "split_on c (c # xs) = [] # split_on c xs"
  by simp











lemma in_class_not_slash: "in_class c \<Longrightarrow> c \<noteq> CHR ''/''"
  by (auto simp: in_class_def)





section \<open>Upload, then read\<close>

lemma in_set_proper_prefixes: "q \<in> set (butlast (prefixes p)) \<longleftrightarrow> strict_prefix q p"
proof (induction p rule: rev_induct)
  case Nil
  show ?case by simp
next
  case (snoc x xs)
  show ?case
    by (auto simp: in_set_prefixes strict_prefix_def)
qed

lemma reachable_iff: "reachable fs p \<longleftrightarrow> (\<forall>q. strict_prefix q p \<longrightarrow> is_dir fs q)"
  by (auto simp: reachable_def list_all_iff in_set_proper_prefixes)



lemma not_is_dir_root: "\<not> is_dir fs p \<Longrightarrow> p \<noteq> []"
  by (auto simp: is_dir_def node_at_def)





section \<open>Rename, then look up\<close>

lemma fs_rename_file_cases:
  assumes src: "lookup fs oldPath = Inr (File c)"
    and ren: "fs_rename oldPath newPath fs = (Inr (), fs')"
    and diff: "fs_resolve fs newPath \<noteq> fs_resolve fs oldPath"
  shows "newPath \<noteq> []" and "reachable fs (fs_resolve fs newPath)"
    and "\<not> trailing_slash newPath" and "\<not> is_dir fs (fs_resolve fs newPath)"
    and "cwd fs' = cwd fs"
    and "entries fs' = AList.update (fs_resolve fs newPath) (File c)
                         (AList.delete (fs_resolve fs oldPath) (entries fs))"
  using assms by (auto simp: fs_rename_def Let_def split: if_splits)

lemma lookup_File_node:
  assumes "lookup fs path = Inr (File c)"
  shows "node_at fs (fs_resolve fs path) = Some (File c)" and "fs_resolve fs path \<noteq> []"
  using assms
  by (auto simp: lookup_def Let_def node_at_def split: if_splits option.splits node.splits)

lemma lookup_after_rename:
  assumes src: "lookup fs oldPath = Inr (File c)"
    and ren: "fs_rename oldPath newPath fs = (Inr (), fs')"
    and diff: "fs_resolve fs newPath \<noteq> fs_resolve fs oldPath"
  shows "lookup fs' newPath = Inr (File c)" and "lookup fs' oldPath = Inl ENOENT"
proof -
  let ?old = "fs_resolve fs oldPath" and ?new = "fs_resolve fs newPath"
  note r = fs_rename_file_cases [OF src ren diff]
  note o = lookup_File_node [OF src]
  have nne: "?new \<noteq> []" using r(4) by (rule not_is_dir_root)
  have node: "node_at fs' q =
      (if q = ?new then Some (File c) else if q = ?old then None else node_at fs q)" for q
    using nne o(2) by (auto simp: node_at_def r(6) update_conv' delete_conv')
  have res: "fs_resolve fs' path = fs_resolve fs path" for path
    using r(5) by (rule fs_resolve_cwd)
  have "reachable fs' ?new"
    using r(2) o(1) by (auto simp: reachable_iff is_dir_def node)
  with r(1,3) node [of ?new] show "lookup fs' newPath = Inr (File c)"
    by (simp add: lookup_def res)
  have "oldPath \<noteq> []" using src by (auto simp: lookup_def)
  with diff node [of ?old] show "lookup fs' oldPath = Inl ENOENT"
    by (auto simp: lookup_def res Let_def)
qed

text \<open>
  C6, as claimed: when \<^verbatim>\<open>renameFile\<close> succeeds and returns a path distinct from the old
  one, \<^verbatim>\<open>getFilePath\<close> of the old path fails afterwards. The old path \<^verbatim>\<open>uploads//5-a\<close> names
  the stored file \<^verbatim>\<open>uploads/5-a\<close>; renamed to \<^verbatim>\<open>a\<close> at timestamp 5 it is renamed onto
  itself: the call succeeds, the returned path differs from the old one as a string, and
  \<^verbatim>\<open>getFilePath\<close> of the old path still succeeds.
\<close>

theorem renameFile_same_file_counterexample:
  "lookup fs_stored (path_join [STORAGE_BASE_PATH None, ''uploads//5-a'']) = Inr (File [104, 105]) \<and>
   renameFile None 5 ''uploads//5-a'' ''a'' fs_stored = (Inr ''uploads/5-a'', fs_stored) \<and>
   ''uploads/5-a'' \<noteq> ''uploads//5-a'' \<and>
   getFilePath None ''uploads/5-a'' fs_stored = (Inr ''/app/storage/uploads/5-a'', fs_stored) \<and>
   getFilePath None ''uploads//5-a'' fs_stored = (Inr ''/app/storage/uploads/5-a'', fs_stored) \<and>
   fst (getFilePath None ''uploads//5-a'' fs_stored) \<noteq> Inl NotFoundError"
  by (simp add: eval_defs)

text \<open>
  C6, amended: for every stored file at the old path and every new file name, when
  \<^verbatim>\<open>renameFile\<close> succeeds and the returned path names another place than the old path
  (distinct once \<^verbatim>\<open>path.join\<close> and the filesystem have resolved both, not merely distinct
  as strings), \<^verbatim>\<open>getFilePath\<close> of the new path succeeds afterwards, \<^verbatim>\<open>getFilePath\<close> of the
  old path fails with \<^verbatim>\<open>NotFoundError\<close>, and the new path reads the old content.
\<close>

theorem renameFile_moves_the_file:
  assumes stored: "lookup fs (path_join [STORAGE_BASE_PATH env, oldPath]) = Inr (File c)"
    and renamed: "renameFile env ts oldPath newName fs = (Inr newPath, fs')"
    and distinct: "fs_resolve fs (path_join [STORAGE_BASE_PATH env, newPath]) \<noteq>
                   fs_resolve fs (path_join [STORAGE_BASE_PATH env, oldPath])"
  shows "getFilePath env newPath fs' = (Inr (path_join [STORAGE_BASE_PATH env, newPath]), fs') \<and>
         getFilePath env oldPath fs' = (Inl NotFoundError, fs') \<and>
         readFile env newPath fs' = (Inr c, fs')"
proof -
  let ?old = "path_join [STORAGE_BASE_PATH env, oldPath]"
  let ?new = "path_join [STORAGE_BASE_PATH env, newPath]"
  from renamed have np: "newPath = ''uploads/'' @ number_toString ts @ ''-'' @ replace_outside_class newName"
    and ren: "fs_rename ?old ?new fs = (Inr (), fs')"
    by (auto simp: renameFile_unfold split: prod.splits sum.splits)
  from lookup_after_rename [OF stored ren distinct] show ?thesis
    by (simp add: getFilePath_unfold readFile_unfold)
qed

theorem renameFile_moves_the_file_witness:
  "lookup fs_stored (path_join [STORAGE_BASE_PATH None, ''uploads/5-a'']) = Inr (File [104, 105]) \<and>
   fst (renameFile None 7 ''uploads/5-a'' ''b c'' fs_stored) = Inr ''uploads/7-b_c'' \<and>
   fs_resolve fs_stored (path_join [STORAGE_BASE_PATH None, ''uploads/7-b_c'']) \<noteq>
     fs_resolve fs_stored (path_join [STORAGE_BASE_PATH None, ''uploads/5-a'']) \<and>
   fst (getFilePath None ''uploads/7-b_c'' (snd (renameFile None 7 ''uploads/5-a'' ''b c'' fs_stored))) =
     Inr ''/app/storage/uploads/7-b_c'' \<and>
   fst (getFilePath None ''uploads/5-a'' (snd (renameFile None 7 ''uploads/5-a'' ''b c'' fs_stored))) =
     Inl NotFoundError"
proof -
  let ?fs' = "snd (renameFile None 7 ''uploads/5-a'' ''b c'' fs_stored)"
  have stored: "lookup fs_stored (path_join [STORAGE_BASE_PATH None, ''uploads/5-a'']) = Inr (File [104, 105])"
    by (simp add: eval_defs)
  have r: "fst (renameFile None 7 ''uploads/5-a'' ''b c'' fs_stored) = Inr ''uploads/7-b_c''"
    by (simp add: eval_defs)
  then have renamed: "renameFile None 7 ''uploads/5-a'' ''b c'' fs_stored = (Inr ''uploads/7-b_c'', ?fs')"
    by (simp add: prod_eq_iff)
  have distinct: "fs_resolve fs_stored (path_join [STORAGE_BASE_PATH None, ''uploads/7-b_c'']) \<noteq>
     fs_resolve fs_stored (path_join [STORAGE_BASE_PATH None, ''uploads/5-a''])"
    by (simp add: eval_defs)
  have full: "path_join [STORAGE_BASE_PATH None, ''uploads/7-b_c''] = ''/app/storage/uploads/7-b_c''"
    by (simp add: eval_defs)
  from renameFile_moves_the_file [OF stored renamed distinct] stored r distinct full
  show ?thesis by simp
qed

end
